theory Spec2Isabelle
  imports Main
begin

unbundle bit_operations_syntax

section \<open>Strings, bytes and library functions\<close>

text \<open>
  A Python \<open>str\<close> is represented by its UTF-8 byte sequence, a \<open>string\<close>: concatenation,
  comparison, substring, prefix and suffix tests on code points are the same tests on the
  UTF-8 bytes, and \<open>s.encode('utf-8')\<close> is the identity on the representation. Python
  integers are unbounded: \<open>int\<close>.
\<close>

definition digit_char :: "nat \<Rightarrow> char" where
  "digit_char d = ''0123456789'' ! d"

text \<open>\<open>str(n)\<close> for a non-negative integer \<open>n\<close>.\<close>

fun str_nat :: "nat \<Rightarrow> string" where
  "str_nat n = (if n < 10 then [digit_char n] else str_nat (n div 10) @ [digit_char (n mod 10)])"

declare str_nat.simps [simp del]

text \<open>\<open>str(i)\<close> for any integer.\<close>

definition str_int :: "int \<Rightarrow> string" where
  "str_int i = (if i < 0 then CHR ''-'' # str_nat (nat (- i)) else str_nat (nat i))"

subsection \<open>zlib.crc32\<close>

text \<open>
  The CRC-32 of zlib (reflected polynomial \<open>0xEDB88320\<close>, initial value and final
  complement \<open>0xFFFFFFFF\<close>), bit by bit, on naturals below \<open>2 ^ 32\<close>.
\<close>

definition crc32_step :: "nat \<Rightarrow> nat" where
  "crc32_step c = (if odd c then (c div 2) XOR 0xEDB88320 else c div 2)"

definition crc32_byte :: "nat \<Rightarrow> char \<Rightarrow> nat" where
  "crc32_byte c b =
     crc32_step (crc32_step (crc32_step (crc32_step
       (crc32_step (crc32_step (crc32_step (crc32_step (c XOR of_char b))))))))"

definition crc32 :: "string \<Rightarrow> int" where
  "crc32 s = int (foldl crc32_byte 0xFFFFFFFF s XOR 0xFFFFFFFF)"

subsection \<open>hashlib.md5\<close>

text \<open>MD5 (RFC 1321) on naturals below \<open>2 ^ 32\<close>; the digest is a list of 16 bytes.\<close>

definition add32 :: "nat \<Rightarrow> nat \<Rightarrow> nat" where
  "add32 a b = (a + b) mod 4294967296"

definition not32 :: "nat \<Rightarrow> nat" where
  "not32 a = 4294967295 - a mod 4294967296"

definition rotl32 :: "nat \<Rightarrow> nat \<Rightarrow> nat" where
  "rotl32 x n = (x * 2 ^ n) mod 4294967296 + x div 2 ^ (32 - n)"

datatype md5_round = RF | RG | RH | RI

fun md5_mix :: "md5_round \<Rightarrow> nat \<Rightarrow> nat \<Rightarrow> nat \<Rightarrow> nat" where
  "md5_mix RF b c d = (b AND c) OR (not32 b AND d)"
| "md5_mix RG b c d = (b AND d) OR (c AND not32 d)"
| "md5_mix RH b c d = b XOR c XOR d"
| "md5_mix RI b c d = c XOR (b OR not32 d)"

text \<open>The 64 operations: round function, additive constant, rotation, message word.\<close>

definition md5_schedule :: "(md5_round \<times> nat \<times> nat \<times> nat) list" where
  "md5_schedule = [
(RF,0xd76aa478,7,0),(RF,0xe8c7b756,12,1),(RF,0x242070db,17,2),(RF,0xc1bdceee,22,3),
(RF,0xf57c0faf,7,4),(RF,0x4787c62a,12,5),(RF,0xa8304613,17,6),(RF,0xfd469501,22,7),
(RF,0x698098d8,7,8),(RF,0x8b44f7af,12,9),(RF,0xffff5bb1,17,10),(RF,0x895cd7be,22,11),
(RF,0x6b901122,7,12),(RF,0xfd987193,12,13),(RF,0xa679438e,17,14),(RF,0x49b40821,22,15),
(RG,0xf61e2562,5,1),(RG,0xc040b340,9,6),(RG,0x265e5a51,14,11),(RG,0xe9b6c7aa,20,0),
(RG,0xd62f105d,5,5),(RG,0x02441453,9,10),(RG,0xd8a1e681,14,15),(RG,0xe7d3fbc8,20,4),
(RG,0x21e1cde6,5,9),(RG,0xc33707d6,9,14),(RG,0xf4d50d87,14,3),(RG,0x455a14ed,20,8),
(RG,0xa9e3e905,5,13),(RG,0xfcefa3f8,9,2),(RG,0x676f02d9,14,7),(RG,0x8d2a4c8a,20,12),
(RH,0xfffa3942,4,5),(RH,0x8771f681,11,8),(RH,0x6d9d6122,16,11),(RH,0xfde5380c,23,14),
(RH,0xa4beea44,4,1),(RH,0x4bdecfa9,11,4),(RH,0xf6bb4b60,16,7),(RH,0xbebfbc70,23,10),
(RH,0x289b7ec6,4,13),(RH,0xeaa127fa,11,0),(RH,0xd4ef3085,16,3),(RH,0x04881d05,23,6),
(RH,0xd9d4d039,4,9),(RH,0xe6db99e5,11,12),(RH,0x1fa27cf8,16,15),(RH,0xc4ac5665,23,2),
(RI,0xf4292244,6,0),(RI,0x432aff97,10,7),(RI,0xab9423a7,15,14),(RI,0xfc93a039,21,5),
(RI,0x655b59c3,6,12),(RI,0x8f0ccc92,10,3),(RI,0xffeff47d,15,10),(RI,0x85845dd1,21,1),
(RI,0x6fa87e4f,6,8),(RI,0xfe2ce6e0,10,15),(RI,0xa3014314,15,6),(RI,0x4e0811a1,21,13),
(RI,0xf7537e82,6,4),(RI,0xbd3af235,10,11),(RI,0x2ad7d2bb,15,2),(RI,0xeb86d391,21,9)]"

fun md5_step ::
  "nat list \<Rightarrow> nat \<times> nat \<times> nat \<times> nat \<Rightarrow> md5_round \<times> nat \<times> nat \<times> nat
     \<Rightarrow> nat \<times> nat \<times> nat \<times> nat" where
  "md5_step m (a, b, c, d) (r, k, s, g) =
     (d, add32 b (rotl32 (add32 (add32 (add32 (md5_mix r b c d) a) k) (m ! g)) s), b, c)"

text \<open>The little-endian 32-bit words of a block.\<close>

fun md5_words :: "nat list \<Rightarrow> nat list" where
  "md5_words (a # b # c # d # bs) = (a + 256 * b + 65536 * c + 16777216 * d) # md5_words bs"
| "md5_words bs = []"

definition md5_block ::
  "nat \<times> nat \<times> nat \<times> nat \<Rightarrow> nat list \<Rightarrow> nat \<times> nat \<times> nat \<times> nat" where
  "md5_block st blk =
     (case st of (a0, b0, c0, d0) \<Rightarrow>
      (case foldl (md5_step (md5_words blk)) st md5_schedule of
        (a, b, c, d) \<Rightarrow> (add32 a0 a, add32 b0 b, add32 c0 c, add32 d0 d)))"

fun md5_blocks ::
  "nat \<times> nat \<times> nat \<times> nat \<Rightarrow> nat list \<Rightarrow> nat \<times> nat \<times> nat \<times> nat" where
  "md5_blocks st bs =
     (if length bs < 64 then st else md5_blocks (md5_block st (take 64 bs)) (drop 64 bs))"

declare md5_blocks.simps [simp del]

definition le_bytes4 :: "nat \<Rightarrow> nat list" where
  "le_bytes4 x = [x mod 256, x div 256 mod 256, x div 65536 mod 256, x div 16777216 mod 256]"

text \<open>Padding: a one bit, zeros up to 56 modulo 64, the bit length in 64 bits.\<close>

definition md5_pad :: "nat list \<Rightarrow> nat list" where
  "md5_pad bs = bs @ [128] @ replicate ((119 - length bs mod 64) mod 64) 0
                 @ le_bytes4 ((8 * length bs) mod 4294967296)
                 @ le_bytes4 ((8 * length bs) div 4294967296 mod 4294967296)"

definition md5 :: "string \<Rightarrow> nat list" where
  "md5 s =
     (case md5_blocks (0x67452301, 0xefcdab89, 0x98badcfe, 0x10325476) (md5_pad (map of_char s)) of
        (a, b, c, d) \<Rightarrow> le_bytes4 a @ le_bytes4 b @ le_bytes4 c @ le_bytes4 d)"

text \<open>\<open>hexdigest()\<close>: two lower-case hexadecimal digits per byte, in digest order.\<close>

definition hex_digit :: "nat \<Rightarrow> char" where
  "hex_digit d = ''0123456789abcdef'' ! d"

definition hex_byte :: "nat \<Rightarrow> string" where
  "hex_byte b = [hex_digit (b div 16 mod 16), hex_digit (b mod 16)]"

definition hexdigest :: "nat list \<Rightarrow> string" where
  "hexdigest bs = concat (map hex_byte bs)"

text \<open>
  \<open>int(s, 16)\<close> on a string of hexadecimal digits; any other character is the
  \<open>ValueError\<close> of Python, here \<open>None\<close>, and so is the empty string.
\<close>

definition hex_value :: "char \<Rightarrow> nat option" where
  "hex_value c =
     (let n = (of_char c :: nat) in
      if 48 \<le> n \<and> n \<le> 57 then Some (n - 48)
      else if 97 \<le> n \<and> n \<le> 102 then Some (n - 87)
      else if 65 \<le> n \<and> n \<le> 70 then Some (n - 55)
      else None)"

fun int_hex_acc :: "nat \<Rightarrow> string \<Rightarrow> nat option" where
  "int_hex_acc acc [] = Some acc"
| "int_hex_acc acc (c # cs) =
     (case hex_value c of None \<Rightarrow> None | Some v \<Rightarrow> int_hex_acc (16 * acc + v) cs)"

definition int_hex :: "string \<Rightarrow> int option" where
  "int_hex s = (if s = [] then None else map_option int (int_hex_acc 0 s))"

section \<open>Identifier derivation\<close>

text \<open>\<open>generate_steam_short_id\<close>: the unsigned 32-bit form of a signed identifier.\<close>

definition generate_steam_short_id :: "int \<Rightarrow> int" where
  "generate_steam_short_id signed_appid = signed_appid AND 0xFFFFFFFF"

text \<open>
  The identifier of \<open>create_shortcut_directly_with_proton\<close> and of Step 2 of
  \<open>run_complete_workflow\<close>: \<open>-(crc32((exe_path + shortcut_name).encode('utf-8')) & 0x7FFFFFFF)\<close>.
\<close>

definition crc_appid :: "string \<Rightarrow> string \<Rightarrow> int" where
  "crc_appid exe_path shortcut_name = - (crc32 (exe_path @ shortcut_name) AND 0x7FFFFFFF)"

text \<open>
  \<open>predict_appid_using_stl_algorithm\<close>: the first 8 characters of the MD5 hex digest of
  \<open>shortcut_name + exe_path\<close>, read as a hexadecimal number, reduced modulo one billion and
  negated (\<open>signed_appid\<close>); the function returns \<open>signed_appid & 0xFFFFFFFF\<close>. An exception
  makes it return \<open>None\<close>.
\<close>

definition stl_seed_hex :: "string \<Rightarrow> string \<Rightarrow> string" where
  "stl_seed_hex shortcut_name exe_path = take 8 (hexdigest (md5 (shortcut_name @ exe_path)))"

definition stl_signed_appid :: "string \<Rightarrow> string \<Rightarrow> int option" where
  "stl_signed_appid shortcut_name exe_path =
     (case int_hex (stl_seed_hex shortcut_name exe_path) of
        None \<Rightarrow> None
      | Some seed_decimal \<Rightarrow> Some (- (seed_decimal mod 1000000000)))"

definition predict_appid_using_stl_algorithm :: "string \<Rightarrow> string \<Rightarrow> int option" where
  "predict_appid_using_stl_algorithm shortcut_name exe_path =
     (case stl_signed_appid shortcut_name exe_path of
        None \<Rightarrow> None
      | Some signed_appid \<Rightarrow> Some (signed_appid AND 0xFFFFFFFF))"

text \<open>
  The launch handle. \<open>launch_shortcut_to_trigger_prefix\<close> converts the signed identifier
  to its unsigned form first; Step 2 of \<open>run_complete_workflow\<close> shifts the signed
  identifier itself.
\<close>

definition launch_rungameid :: "int \<Rightarrow> int" where
  "launch_rungameid initial_appid =
     push_bit 32 (generate_steam_short_id initial_appid) OR 0x02000000"

definition workflow_rungameid :: "int \<Rightarrow> int" where
  "workflow_rungameid initial_appid = push_bit 32 initial_appid OR 0x02000000"

text \<open>
  The name of the prefix directory under \<open>compatdata\<close>: \<open>str(abs(appid))\<close>, in
  \<open>get_prefix_path\<close>, \<open>create_prefix_with_proton_wrapper\<close> and Step 2 of
  \<open>run_complete_workflow\<close> (\<open>expected_prefix_id\<close>).
\<close>

definition prefix_dir_name :: "int \<Rightarrow> string" where
  "prefix_dir_name appid = str_nat (nat \<bar>appid\<bar>)"

section \<open>Python strings\<close>

definition dquote :: char where
  "dquote = CHR 0x22"

text \<open>The f-string \<open>f'"{s}"'\<close>.\<close>

definition quoted :: "string \<Rightarrow> string" where
  "quoted s = dquote # s @ [dquote]"

text \<open>\<open>hay.startswith(needle)\<close>, \<open>hay.endswith(needle)\<close> and \<open>needle in hay\<close>.\<close>

definition starts_with :: "string \<Rightarrow> string \<Rightarrow> bool" where
  "starts_with needle hay = (take (length needle) hay = needle)"

definition ends_with :: "string \<Rightarrow> string \<Rightarrow> bool" where
  "ends_with needle hay = starts_with (rev needle) (rev hay)"

fun is_substr :: "string \<Rightarrow> string \<Rightarrow> bool" where
  "is_substr needle [] = (needle = [])"
| "is_substr needle (h # hs) = (starts_with needle (h # hs) \<or> is_substr needle hs)"


text \<open>
  \<open>s.strip()\<close> removes the white space of \<open>str.isspace\<close> at both ends. In UTF-8 these
  code points are the ASCII characters 9 to 13 and 28 to 32, and U+0085, U+00A0, U+1680,
  U+2000 to U+200A, U+2028, U+2029, U+202F, U+205F and U+3000.
\<close>

definition py_whitespace :: "string list" where
  "py_whitespace =
     [[CHR 0x09], [CHR 0x0A], [CHR 0x0B], [CHR 0x0C], [CHR 0x0D],
      [CHR 0x1C], [CHR 0x1D], [CHR 0x1E], [CHR 0x1F], [CHR 0x20],
      [CHR 0xC2, CHR 0x85], [CHR 0xC2, CHR 0xA0], [CHR 0xE1, CHR 0x9A, CHR 0x80],
      [CHR 0xE2, CHR 0x80, CHR 0x80], [CHR 0xE2, CHR 0x80, CHR 0x81],
      [CHR 0xE2, CHR 0x80, CHR 0x82], [CHR 0xE2, CHR 0x80, CHR 0x83],
      [CHR 0xE2, CHR 0x80, CHR 0x84], [CHR 0xE2, CHR 0x80, CHR 0x85],
      [CHR 0xE2, CHR 0x80, CHR 0x86], [CHR 0xE2, CHR 0x80, CHR 0x87],
      [CHR 0xE2, CHR 0x80, CHR 0x88], [CHR 0xE2, CHR 0x80, CHR 0x89],
      [CHR 0xE2, CHR 0x80, CHR 0x8A], [CHR 0xE2, CHR 0x80, CHR 0xA8],
      [CHR 0xE2, CHR 0x80, CHR 0xA9], [CHR 0xE2, CHR 0x80, CHR 0xAF],
      [CHR 0xE2, CHR 0x81, CHR 0x9F], [CHR 0xE3, CHR 0x80, CHR 0x80]]"

function lstrip :: "string \<Rightarrow> string" where
  "lstrip s =
     (case find (\<lambda>w. starts_with w s) py_whitespace of
        None \<Rightarrow> s
      | Some w \<Rightarrow> lstrip (drop (length w) s))"
  by pat_completeness auto
termination
proof (relation "measure length")
  fix s w
  assume "find (\<lambda>w. starts_with w s) py_whitespace = Some w"
  then have "w \<in> set py_whitespace" and "starts_with w s"
    by (auto simp: find_Some_iff)
  then have "w \<noteq> []" and "take (length w) s = w"
    by (auto simp: py_whitespace_def starts_with_def)
  then have "s \<noteq> []" by auto
  with \<open>w \<noteq> []\<close> show "(drop (length w) s, s) \<in> measure length" by simp
qed simp

declare lstrip.simps [simp del]

function rstrip :: "string \<Rightarrow> string" where
  "rstrip s =
     (case find (\<lambda>w. ends_with w s) py_whitespace of
        None \<Rightarrow> s
      | Some w \<Rightarrow> rstrip (take (length s - length w) s))"
  by pat_completeness auto
termination
proof (relation "measure length")
  fix s w
  assume "find (\<lambda>w. ends_with w s) py_whitespace = Some w"
  then have "w \<in> set py_whitespace" and "ends_with w s"
    by (auto simp: find_Some_iff)
  then have "w \<noteq> []" and "take (length w) (rev s) = rev w"
    by (auto simp: py_whitespace_def ends_with_def starts_with_def)
  then have "s \<noteq> []" by auto
  with \<open>w \<noteq> []\<close> show "(take (length s - length w) s, s) \<in> measure length" by simp
qed simp

declare rstrip.simps [simp del]

definition py_strip :: "string \<Rightarrow> string" where
  "py_strip s = rstrip (lstrip s)"

section \<open>The shortcut store\<close>

text \<open>
  \<open>vdf.binary_load\<close> gives nested dictionaries whose values are strings, 32-bit integers
  or dictionaries. A dictionary is an association list in insertion order: \<open>d.get(k)\<close> is
  \<open>map_of d k\<close>, \<open>d[k] = v\<close> is \<open>dict_set k v d\<close> (an existing key keeps its place, a new
  one goes to the end), \<open>len(d)\<close> is \<open>length d\<close>, \<open>d.values()\<close> is \<open>map snd d\<close>.
\<close>

datatype vdf_value = VStr string | VInt int | VDict "(string \<times> vdf_value) list"

type_synonym shortcut = "(string \<times> vdf_value) list"

text \<open>The value of the key \<open>'shortcuts'\<close> of \<open>shortcuts.vdf\<close>.\<close>

type_synonym shortcuts = "(string \<times> shortcut) list"

datatype py_error = KeyError | TypeError | AttributeError

fun dict_set :: "string \<Rightarrow> 'v \<Rightarrow> (string \<times> 'v) list \<Rightarrow> (string \<times> 'v) list" where
  "dict_set k v [] = [(k, v)]"
| "dict_set k v (p # d) = (if fst p = k then (k, v) # d else p # dict_set k v d)"

text \<open>\<open>d.update({k1: v1, ...})\<close> sets the keys in the order of the literal.\<close>

definition dict_update :: "(string \<times> 'v) list \<Rightarrow> (string \<times> 'v) list \<Rightarrow> (string \<times> 'v) list" where
  "dict_update d kvs = foldl (\<lambda>acc kv. dict_set (fst kv) (snd kv) acc) d kvs"

text \<open>\<open>d.get(k, default)\<close>.\<close>

definition get_or :: "(string \<times> 'v) list \<Rightarrow> string \<Rightarrow> 'v \<Rightarrow> 'v" where
  "get_or d k dflt = (case map_of d k of None \<Rightarrow> dflt | Some v \<Rightarrow> v)"

text \<open>
  \<open>{str(i): s for i, s in enumerate(new_shortcuts_list)}\<close>, the rebuilding of the
  collection in \<open>create_shortcut_directly_with_proton\<close>,
  \<open>replace_shortcut_with_final_exe\<close> and \<open>cleanup_old_batch_shortcuts\<close>.
\<close>

definition reindex :: "shortcut list \<Rightarrow> shortcuts" where
  "reindex xs = zip (map str_nat [0..<length xs]) xs"

text \<open>The test \<open>shortcut.get('AppName') == shortcut_name\<close>.\<close>

definition has_name :: "string \<Rightarrow> shortcut \<Rightarrow> bool" where
  "has_name shortcut_name sc = (map_of sc ''AppName'' = Some (VStr shortcut_name))"

subsection \<open>\<open>create_shortcut_directly_with_proton\<close>\<close>

text \<open>
  \<open>batch_path\<close> and \<open>batch_parent\<close> are the strings of
  \<open>Path.home() / "Jackify/temp_prefix_creation.bat"\<close> and of its parent directory.
  The file is \<open>None\<close> when \<open>_get_shortcuts_path\<close> finds no \<open>shortcuts.vdf\<close>.
  \<open>set_proton_ok\<close> is the result of \<open>set_proton_version_for_shortcut\<close>, which edits
  \<open>config.vdf\<close> after \<open>shortcuts.vdf\<close> has been written. The result is the returned
  flag and the file afterwards.
\<close>

definition update_to_batch :: "string \<Rightarrow> string \<Rightarrow> int \<Rightarrow> shortcut \<Rightarrow> shortcut" where
  "update_to_batch batch_path batch_parent appid sc =
     dict_update sc
       [(''Exe'', VStr (quoted batch_path)),
        (''StartDir'', VStr (quoted batch_parent)),
        (''appid'', VInt appid),
        (''LaunchOptions'', VStr ''''),
        (''tags'', VDict []),
        (''CompatTool'', VStr ''proton_experimental'')]"

definition new_shortcut :: "string \<Rightarrow> string \<Rightarrow> int \<Rightarrow> string \<Rightarrow> shortcut" where
  "new_shortcut batch_path batch_parent appid shortcut_name =
     [(''AppName'', VStr shortcut_name),
      (''Exe'', VStr (quoted batch_path)),
      (''StartDir'', VStr (quoted batch_parent)),
      (''appid'', VInt appid),
      (''icon'', VStr ''''),
      (''ShortcutPath'', VStr ''''),
      (''LaunchOptions'', VStr ''''),
      (''IsHidden'', VInt 0),
      (''AllowDesktopConfig'', VInt 1),
      (''AllowOverlay'', VInt 1),
      (''OpenVR'', VInt 0),
      (''Devkit'', VInt 0),
      (''DevkitGameID'', VStr ''''),
      (''LastPlayTime'', VInt 0),
      (''FlatpakAppID'', VStr ''''),
      (''tags'', VDict []),
      (''sortas'', VStr ''''),
      (''CompatTool'', VStr ''proton_experimental'')]"

text \<open>
  The loop over \<open>list(shortcuts.values())\<close>: every entry with the name is updated, the
  others are kept, all in order; \<open>found\<close> says whether one had the name.
\<close>

definition upsert_list :: "string \<Rightarrow> string \<Rightarrow> int \<Rightarrow> string \<Rightarrow> shortcut list \<Rightarrow> shortcut list" where
  "upsert_list batch_path batch_parent appid shortcut_name shortcuts_list =
     (let new_shortcuts_list =
            map (\<lambda>sc. if has_name shortcut_name sc
                       then update_to_batch batch_path batch_parent appid sc else sc)
              shortcuts_list;
          found = list_ex (has_name shortcut_name) shortcuts_list
      in if found then new_shortcuts_list
         else new_shortcuts_list @ [new_shortcut batch_path batch_parent appid shortcut_name])"

definition create_shortcut_directly_with_proton ::
  "string \<Rightarrow> string \<Rightarrow> bool \<Rightarrow> string \<Rightarrow> string \<Rightarrow> string \<Rightarrow> shortcuts option
     \<Rightarrow> bool \<times> shortcuts option" where
  "create_shortcut_directly_with_proton batch_path batch_parent set_proton_ok
       shortcut_name exe_path modlist_install_dir file =
     (case file of
        None \<Rightarrow> (False, None)
      | Some shortcuts \<Rightarrow>
          (set_proton_ok,
           Some (reindex (upsert_list batch_path batch_parent (crc_appid exe_path shortcut_name)
                            shortcut_name (map snd shortcuts)))))"

subsection \<open>\<open>replace_shortcut_with_final_exe\<close>\<close>

definition update_to_final :: "string \<Rightarrow> string \<Rightarrow> shortcut \<Rightarrow> shortcut" where
  "update_to_final final_exe_path modlist_install_dir sc =
     dict_update sc
       [(''Exe'', VStr (quoted final_exe_path)),
        (''StartDir'', VStr modlist_install_dir),
        (''LaunchOptions'', VStr ''''),
        (''tags'', VDict [])]"

definition replace_shortcut_with_final_exe ::
  "string \<Rightarrow> string \<Rightarrow> string \<Rightarrow> shortcuts option \<Rightarrow> bool \<times> shortcuts option" where
  "replace_shortcut_with_final_exe shortcut_name final_exe_path modlist_install_dir file =
     (case file of
        None \<Rightarrow> (False, None)
      | Some shortcuts \<Rightarrow>
          if list_ex (has_name shortcut_name) (map snd shortcuts)
          then (True,
                Some (reindex (map (\<lambda>sc. if has_name shortcut_name sc
                                          then update_to_final final_exe_path modlist_install_dir sc
                                          else sc) (map snd shortcuts))))
          else (False, Some shortcuts))"

subsection \<open>\<open>modify_shortcut_to_final_exe\<close>\<close>

text \<open>Truth value of a VDF value, as in \<open>name == ... and exe and ...\<close>.\<close>

fun truthy :: "vdf_value \<Rightarrow> bool" where
  "truthy (VStr s) = (s \<noteq> [])"
| "truthy (VInt i) = (i \<noteq> 0)"
| "truthy (VDict d) = (d \<noteq> [])"

text \<open>
  The condition of the search loop,
  \<open>name == shortcut_name and exe and 'prefix_creation_' in exe and
    (exe.endswith('.bat') or exe.endswith('.bat"'))\<close>,
  with \<open>name = shortcut.get('AppName', '')\<close> and \<open>exe = shortcut.get('Exe', '')\<close>. On an
  integer \<open>in\<close> raises \<open>TypeError\<close>; on a dictionary \<open>in\<close> tests the keys and
  \<open>endswith\<close> raises \<open>AttributeError\<close>.
\<close>

definition is_batch_shortcut :: "string \<Rightarrow> shortcut \<Rightarrow> py_error + bool" where
  "is_batch_shortcut shortcut_name sc =
     (let name = get_or sc ''AppName'' (VStr ''''); exe = get_or sc ''Exe'' (VStr '''') in
      if name \<noteq> VStr shortcut_name then Inr False
      else if \<not> truthy exe then Inr False
      else (case exe of
              VStr e \<Rightarrow>
                Inr (is_substr ''prefix_creation_'' e
                     \<and> (ends_with ''.bat'' e \<or> ends_with (''.bat'' @ [dquote]) e))
            | VInt i \<Rightarrow> Inl TypeError
            | VDict d \<Rightarrow>
                if ''prefix_creation_'' \<in> set (map fst d) then Inl AttributeError
                else Inr False))"

text \<open>
  \<open>for i in range(len(shortcuts)): shortcut = shortcuts[str(i)] ...\<close> up to the first
  match (\<open>break\<close>); a missing key raises \<open>KeyError\<close>.
\<close>

fun find_batch_shortcut :: "shortcuts \<Rightarrow> string \<Rightarrow> nat list \<Rightarrow> py_error + nat option" where
  "find_batch_shortcut shortcuts shortcut_name [] = Inr None"
| "find_batch_shortcut shortcuts shortcut_name (i # is) =
     (case map_of shortcuts (str_nat i) of
        None \<Rightarrow> Inl KeyError
      | Some sc \<Rightarrow>
          (case is_batch_shortcut shortcut_name sc of
             Inl e \<Rightarrow> Inl e
           | Inr True \<Rightarrow> Inr (Some i)
           | Inr False \<Rightarrow> find_batch_shortcut shortcuts shortcut_name is))"

text \<open>
  The update of the entry found: \<open>Exe\<close> and \<open>StartDir\<close> are set, and \<open>CompatTool\<close> is
  set when \<open>target_shortcut.get('CompatTool', '').strip()\<close> is empty; \<open>strip\<close> on a value
  that is not a string raises \<open>AttributeError\<close>.
\<close>

definition retarget_shortcut :: "string \<Rightarrow> string \<Rightarrow> shortcut \<Rightarrow> py_error + shortcut" where
  "retarget_shortcut final_exe_path final_start_dir sc =
     (let sc1 = dict_set ''Exe'' (VStr (quoted final_exe_path)) sc;
          sc2 = dict_set ''StartDir'' (VStr (quoted final_start_dir)) sc1
      in case get_or sc2 ''CompatTool'' (VStr '''') of
           VStr c \<Rightarrow>
             Inr (if py_strip c = []
                  then dict_set ''CompatTool'' (VStr ''proton_experimental'') sc2 else sc2)
         | VInt i \<Rightarrow> Inl AttributeError
         | VDict d \<Rightarrow> Inl AttributeError)"

text \<open>
  Any exception is caught and makes the function return \<open>False\<close> before the file is
  written. The entry is changed in place, under its key.
\<close>

definition modify_shortcut_to_final_exe ::
  "string \<Rightarrow> string \<Rightarrow> string \<Rightarrow> shortcuts option \<Rightarrow> bool \<times> shortcuts option" where
  "modify_shortcut_to_final_exe shortcut_name final_exe_path final_start_dir file =
     (case file of
        None \<Rightarrow> (False, None)
      | Some shortcuts \<Rightarrow>
          (case find_batch_shortcut shortcuts shortcut_name [0..<length shortcuts] of
             Inl e \<Rightarrow> (False, Some shortcuts)
           | Inr None \<Rightarrow> (False, Some shortcuts)
           | Inr (Some i) \<Rightarrow>
               (case map_of shortcuts (str_nat i) of
                  None \<Rightarrow> (False, Some shortcuts)
                | Some sc \<Rightarrow>
                    (case retarget_shortcut final_exe_path final_start_dir sc of
                       Inl e \<Rightarrow> (False, Some shortcuts)
                     | Inr sc' \<Rightarrow> (True, Some (dict_set (str_nat i) sc' shortcuts))))))"

subsection \<open>\<open>cleanup_old_batch_shortcuts\<close>\<close>

text \<open>
  The condition \<open>name == shortcut_name and 'prefix_creation_' in exe and exe.endswith('.bat')\<close>.
\<close>

definition is_old_batch_shortcut :: "string \<Rightarrow> shortcut \<Rightarrow> py_error + bool" where
  "is_old_batch_shortcut shortcut_name sc =
     (let name = get_or sc ''AppName'' (VStr ''''); exe = get_or sc ''Exe'' (VStr '''') in
      if name \<noteq> VStr shortcut_name then Inr False
      else (case exe of
              VStr e \<Rightarrow> Inr (is_substr ''prefix_creation_'' e \<and> ends_with ''.bat'' e)
            | VInt i \<Rightarrow> Inl TypeError
            | VDict d \<Rightarrow>
                if ''prefix_creation_'' \<in> set (map fst d) then Inl AttributeError
                else Inr False))"

text \<open>The first loop: the keys \<open>str(i)\<close> of the entries to remove.\<close>

fun indices_to_remove :: "shortcuts \<Rightarrow> string \<Rightarrow> nat list \<Rightarrow> py_error + string list" where
  "indices_to_remove shortcuts shortcut_name [] = Inr []"
| "indices_to_remove shortcuts shortcut_name (i # is) =
     (case map_of shortcuts (str_nat i) of
        None \<Rightarrow> Inl KeyError
      | Some sc \<Rightarrow>
          (case is_old_batch_shortcut shortcut_name sc of
             Inl e \<Rightarrow> Inl e
           | Inr b \<Rightarrow>
               (case indices_to_remove shortcuts shortcut_name is of
                  Inl e \<Rightarrow> Inl e
                | Inr rest \<Rightarrow> Inr (if b then str_nat i # rest else rest))))"

text \<open>The second loop keeps the entries whose key is not marked, in index order.\<close>

fun kept_shortcuts :: "shortcuts \<Rightarrow> string list \<Rightarrow> nat list \<Rightarrow> py_error + shortcut list" where
  "kept_shortcuts shortcuts marked [] = Inr []"
| "kept_shortcuts shortcuts marked (i # is) =
     (if str_nat i \<in> set marked then kept_shortcuts shortcuts marked is
      else (case map_of shortcuts (str_nat i) of
              None \<Rightarrow> Inl KeyError
            | Some sc \<Rightarrow>
                (case kept_shortcuts shortcuts marked is of
                   Inl e \<Rightarrow> Inl e
                 | Inr rest \<Rightarrow> Inr (sc # rest))))"

definition cleanup_old_batch_shortcuts :: "string \<Rightarrow> shortcuts option \<Rightarrow> bool \<times> shortcuts option" where
  "cleanup_old_batch_shortcuts shortcut_name file =
     (case file of
        None \<Rightarrow> (False, None)
      | Some shortcuts \<Rightarrow>
          (case indices_to_remove shortcuts shortcut_name [0..<length shortcuts] of
             Inl e \<Rightarrow> (False, Some shortcuts)
           | Inr marked \<Rightarrow>
               if marked = [] then (True, Some shortcuts)
               else (case kept_shortcuts shortcuts marked [0..<length shortcuts] of
                       Inl e \<Rightarrow> (False, Some shortcuts)
                     | Inr kept \<Rightarrow> (True, Some (reindex kept)))))"

subsection \<open>\<open>handle_existing_shortcut_conflict\<close>\<close>





section \<open>The compatibility-mapping file\<close>

text \<open>
  The first step of \<open>set_compatibility_tool_complete_stl_style\<close> edits \<open>config.vdf\<close> as
  the list of lines that \<open>readlines()\<close> gives, each with its newline.
\<close>

definition tabs :: "nat \<Rightarrow> string" where
  "tabs n = replicate n (CHR 0x09)"

definition nl :: string where
  "nl = [CHR 0x0A]"

text \<open>
  The scan for the closing brace: a line with \<open>{\<close> adds one to \<open>brace_count\<close>, a line
  with \<open>}\<close> takes one off, and the scan stops at the line where the count is zero after
  that. \<open>None\<close> when the indices are used up.
\<close>

fun brace_scan :: "string list \<Rightarrow> int \<Rightarrow> nat list \<Rightarrow> nat option" where
  "brace_scan lines brace_count [] = None"
| "brace_scan lines brace_count (j # js) =
     (let c1 = (if CHR ''{'' \<in> set (lines ! j) then brace_count + 1 else brace_count) in
      if CHR ''}'' \<in> set (lines ! j)
      then (if c1 - 1 = 0 then Some j else brace_scan lines (c1 - 1) js)
      else brace_scan lines c1 js)"

text \<open>The first index of the range whose line passes the test (the loops end with \<open>break\<close>).\<close>

fun first_index :: "(string \<Rightarrow> bool) \<Rightarrow> string list \<Rightarrow> nat list \<Rightarrow> nat option" where
  "first_index P lines [] = None"
| "first_index P lines (i # is) = (if P (lines ! i) then Some i else first_index P lines is)"

definition new_entry_lines :: "int \<Rightarrow> string \<Rightarrow> string list" where
  "new_entry_lines unsigned_appid compat_tool =
     [tabs 9 @ quoted (str_int unsigned_appid) @ nl,
      tabs 9 @ ''{'' @ nl,
      tabs 10 @ quoted ''name'' @ tabs 4 @ quoted compat_tool @ nl,
      tabs 10 @ quoted ''config'' @ tabs 5 @ quoted '''' @ nl,
      tabs 10 @ quoted ''priority'' @ tabs 5 @ quoted ''250'' @ nl,
      tabs 9 @ ''}'' @ nl]"

text \<open>
  The result is the list written back with \<open>writelines\<close>, or \<open>None\<close> when the function
  returns \<open>False\<close> before writing: the section is not found, or an end index is still
  \<open>None\<close> when \<open>compat_section_end + 1\<close> or \<open>appid_entry_end + 1\<close> is computed
  (a \<open>TypeError\<close>, caught). The new entry is inserted as one element,
  \<open>''.join(new_entry_lines)\<close>.
\<close>

definition patch_compat_tool_mapping :: "int \<Rightarrow> string \<Rightarrow> string list \<Rightarrow> string list option" where
  "patch_compat_tool_mapping unsigned_appid compat_tool lines =
     (case first_index (\<lambda>line. is_substr (quoted ''CompatToolMapping'') (py_strip line))
             lines [0..<length lines] of
        None \<Rightarrow> None
      | Some compat_section_start \<Rightarrow>
          (case brace_scan lines 0 [compat_section_start + 1..<length lines] of
             None \<Rightarrow> None
           | Some compat_section_end \<Rightarrow>
               (case first_index (is_substr (quoted (str_int unsigned_appid))) lines
                       [compat_section_start..<compat_section_end + 1] of
                  None \<Rightarrow>
                    Some (take compat_section_end lines
                          @ [concat (new_entry_lines unsigned_appid compat_tool)]
                          @ drop compat_section_end lines)
                | Some appid_entry_start \<Rightarrow>
                    (case brace_scan lines 0 [appid_entry_start + 1..<compat_section_end + 1] of
                       None \<Rightarrow> None
                     | Some appid_entry_end \<Rightarrow>
                         Some (take appid_entry_start lines
                               @ [concat (new_entry_lines unsigned_appid compat_tool)]
                               @ drop (appid_entry_end + 1) lines)))))"

section \<open>The workflow \<open>run_complete_workflow\<close>\<close>

text \<open>
  The external collaborators are the fields of an environment: the result of
  \<open>set_proton_version_for_shortcut\<close>, of \<open>restart_steam\<close>, of
  \<open>subprocess.run(['steam', 'steam://rungameid/...'])\<close> for a handle, whether a directory of
  \<open>compatdata\<close> exists, the result of \<open>detect_actual_prefix_appid\<close>, the existing path
  that \<open>_get_compatdata_path_for_appid\<close> gives, and the result of
  \<open>verify_prefix_creation\<close>.
\<close>

datatype launch_result = Returned int | LaunchTimeout | LaunchException

record env =
  env_set_proton_ok :: bool
  env_restart_steam :: bool
  env_launch :: "int \<Rightarrow> launch_result"
  env_compatdata_exists :: "string \<Rightarrow> bool"
  env_detect_actual_appid :: "int option"
  env_compatdata_path :: "int \<Rightarrow> string option"
  env_verify_prefix :: "string \<Rightarrow> bool"

text \<open>A returned tuple is the list of its components.\<close>

datatype ret = RBool bool | RNone | RPath string | RInt int

text \<open>Every failure exit of the function is \<open>return False, None, None, None\<close>.\<close>

definition workflow_failure :: "ret list" where
  "workflow_failure = [RBool False, RNone, RNone, RNone]"

definition run_complete_workflow ::
  "env \<Rightarrow> string \<Rightarrow> string \<Rightarrow> string \<Rightarrow> string \<Rightarrow> string \<Rightarrow> shortcuts option
     \<Rightarrow> ret list \<times> shortcuts option" where
  "run_complete_workflow e batch_path batch_parent shortcut_name modlist_install_dir
       final_exe_path file =
     (case create_shortcut_directly_with_proton batch_path batch_parent (env_set_proton_ok e)
             shortcut_name final_exe_path modlist_install_dir file of
        (created, file1) \<Rightarrow>
          if \<not> created then (workflow_failure, file1)
          else
            (let initial_appid = crc_appid final_exe_path shortcut_name;
                 rungameid = workflow_rungameid initial_appid;
                 expected_prefix_id = prefix_dir_name initial_appid
             in if \<not> env_restart_steam e then (workflow_failure, file1)
                else if (case env_launch e rungameid of
                           Returned rc \<Rightarrow> rc \<noteq> 0
                         | LaunchTimeout \<Rightarrow> False
                         | LaunchException \<Rightarrow> True)
                then (workflow_failure, file1)
                else if \<not> env_compatdata_exists e expected_prefix_id
                then (workflow_failure, file1)
                else
                  (case replace_shortcut_with_final_exe shortcut_name final_exe_path
                          modlist_install_dir file1 of
                     (replaced, file2) \<Rightarrow>
                       if \<not> replaced then (workflow_failure, file2)
                       else
                         (case env_detect_actual_appid e of
                            None \<Rightarrow> (workflow_failure, file2)
                          | Some actual_appid \<Rightarrow>
                              (case env_compatdata_path e actual_appid of
                                 None \<Rightarrow> (workflow_failure, file2)
                               | Some prefix_path \<Rightarrow>
                                   if \<not> env_verify_prefix e prefix_path
                                   then (workflow_failure, file2)
                                   else ([RBool True, RPath prefix_path, RInt actual_appid],
                                         file2))))))"

section \<open>Predicates of the specification\<close>

text \<open>
  Helper for the proofs about \<open>str_nat\<close>: the number that a string of decimal digits
  denotes.
\<close>

definition digits_value :: "string \<Rightarrow> nat" where
  "digits_value s = foldl (\<lambda>acc c. 10 * acc + (of_char c - 48)) 0 s"

text \<open>
  The 128-bit digest as a number, \<open>int(hexdigest, 16)\<close>: the bytes of the digest in
  big-endian order.
\<close>

definition be_value :: "nat list \<Rightarrow> nat" where
  "be_value bs = foldl (\<lambda>acc b. 256 * acc + b) 0 bs"

definition md5_int :: "string \<Rightarrow> int" where
  "md5_int s = int (be_value (md5 s))"

text \<open>
  The derivation in the words of the specification, "take the low 32 bits as hex": the low
  32 bits of the 128-bit hash, reduced modulo one billion and negated.
\<close>

definition spec_low32_signed_appid :: "string \<Rightarrow> string \<Rightarrow> int" where
  "spec_low32_signed_appid shortcut_name exe_path =
     - ((md5_int (shortcut_name @ exe_path) AND 0xFFFFFFFF) mod 1000000000)"

text \<open>
  The keys of the collection are exactly the decimal strings \<open>"0"\<close> to \<open>"n-1"\<close> for its
  \<open>n\<close> entries.
\<close>

definition sequential_keys :: "shortcuts \<Rightarrow> bool" where
  "sequential_keys s =
     (distinct (map fst s) \<and> set (map fst s) = set (map str_nat [0..<length s]))"

text \<open>
  A store for the examples: a bootstrap entry "Foo" that points at a batch file of
  \<open>create_temp_batch_file\<close>, with an identifier and launch options, and an entry "Bar".
\<close>

definition example_store :: shortcuts where
  "example_store =
     [(''0'', [(''AppName'', VStr ''Foo''),
              (''Exe'', VStr ''/home/u/Jackify/scripts/prefix_creation_Foo_1.bat''),
              (''StartDir'', VStr ''/home/u/Jackify/scripts''),
              (''appid'', VInt (- 42)),
              (''LaunchOptions'', VStr ''%command%'')]),
      (''1'', [(''AppName'', VStr ''Bar''),
              (''Exe'', VStr (quoted ''/b/Bar.exe'')),
              (''StartDir'', VStr (quoted ''/b'')),
              (''appid'', VInt (- 7)),
              (''CompatTool'', VStr ''proton_9'')])]"



definition entry_at :: "shortcuts \<Rightarrow> nat \<Rightarrow> shortcut" where
  "entry_at s i = get_or s (str_nat i) []"












text \<open>
  An environment in which every collaborator succeeds, the launch times out as expected,
  and the prefix directory never appears.
\<close>

definition no_prefix_env :: env where
  "no_prefix_env =
     \<lparr>env_set_proton_ok = True,
      env_restart_steam = True,
      env_launch = (\<lambda>rungameid. LaunchTimeout),
      env_compatdata_exists = (\<lambda>prefix_id. False),
      env_detect_actual_appid = Some 2341851391,
      env_compatdata_path = (\<lambda>appid. Some ''/home/u/.steam/steam/steamapps/compatdata/2341851391''),
      env_verify_prefix = (\<lambda>path. True)\<rparr>"

text \<open>A store with an entry "Tuxborn" whose identifier is \<open>- 42\<close>.\<close>

definition tuxborn_store :: shortcuts where
  "tuxborn_store =
     [(''0'', [(''AppName'', VStr ''Tuxborn''),
              (''Exe'', VStr (quoted ''/tmp/boot.sh'')),
              (''StartDir'', VStr (quoted ''/tmp'')),
              (''appid'', VInt (- 42))])]"

text \<open>
  The lines of a \<open>config.vdf\<close> whose compatibility-mapping section holds one entry, for
  the identifier 123, in the layout that the patch itself writes.
\<close>

definition config_lines :: "string list" where
  "config_lines =
     [tabs 4 @ quoted ''CompatToolMapping'' @ nl,
      tabs 4 @ ''{'' @ nl,
      tabs 5 @ quoted ''123'' @ nl,
      tabs 5 @ ''{'' @ nl,
      tabs 6 @ quoted ''name'' @ tabs 2 @ quoted ''proton_9'' @ nl,
      tabs 6 @ quoted ''config'' @ tabs 2 @ quoted '''' @ nl,
      tabs 6 @ quoted ''priority'' @ tabs 2 @ quoted ''250'' @ nl,
      tabs 5 @ ''}'' @ nl,
      tabs 4 @ ''}'' @ nl]"

section \<open>Evaluation lemmas\<close>

lemma replicate_numeral_unfold: "replicate (numeral k) x = x # replicate (pred_numeral k) x"
  by (simp add: numeral_eq_Suc)

lemma crc32_boot_tuxborn: "crc32 ''/tmp/boot.shTuxborn'' = 4100599553"
  by (simp add: crc32_def crc32_byte_def crc32_step_def)

lemma md5_tuxborn_boot:
  "md5 ''Tuxborn/tmp/boot.sh'' =
     [200, 251, 137, 170, 86, 253, 222, 95, 0, 33, 8, 53, 237, 15, 141, 224]"
  by (simp add: md5_def md5_pad_def md5_block_def md5_blocks.simps le_bytes4_def
      md5_schedule_def add32_def not32_def rotl32_def replicate_numeral_unfold)

text \<open>Test vectors: the check value of CRC-32 and two of the MD5 test suite.\<close>

lemma crc32_check_value: "crc32 ''123456789'' = 0xCBF43926"
  by (simp add: crc32_def crc32_byte_def crc32_step_def)

lemma md5_empty:
  "hexdigest (md5 []) = ''d41d8cd98f00b204e9800998ecf8427e''"
  by (simp add: md5_def md5_pad_def md5_block_def md5_blocks.simps le_bytes4_def
      md5_schedule_def add32_def not32_def rotl32_def replicate_numeral_unfold
      hexdigest_def hex_byte_def hex_digit_def)

lemma md5_two_blocks:
  "hexdigest (md5 ''12345678901234567890123456789012345678901234567890123456789012345678901234567890'')
     = ''57edf4a22be3c955ac49da2e2107b67a''"
  by (simp add: md5_def md5_pad_def md5_block_def md5_blocks.simps le_bytes4_def
      md5_schedule_def add32_def not32_def rotl32_def replicate_numeral_unfold
      hexdigest_def hex_byte_def hex_digit_def)

subsection \<open>Decimal strings\<close>

lemma of_char_digit_char: "d < 10 \<Longrightarrow> of_char (digit_char d) = (48 + d :: nat)"
proof -
  assume "d < 10"
  then have "d \<in> {0, 1, 2, 3, 4, 5, 6, 7, 8, 9}" by auto
  then show ?thesis unfolding digit_char_def by auto
qed

lemma digits_value_str_nat: "digits_value (str_nat n) = n"
proof (induction n rule: str_nat.induct)
  case (1 n)
  show ?case
  proof (cases "n < 10")
    case True
    then show ?thesis
      by (subst str_nat.simps) (simp add: digits_value_def of_char_digit_char)
  next
    case False
    have "n mod 10 < 10" by simp
    then have d: "of_char (digit_char (n mod 10)) - 48 = n mod 10"
      by (simp add: of_char_digit_char)
    from False 1 have ih: "digits_value (str_nat (n div 10)) = n div 10" by simp
    from False have "str_nat n = str_nat (n div 10) @ [digit_char (n mod 10)]"
      by (subst str_nat.simps) simp
    then have "digits_value (str_nat n) =
        10 * digits_value (str_nat (n div 10)) + (of_char (digit_char (n mod 10)) - 48)"
      by (simp add: digits_value_def)
    with ih d show ?thesis by simp
  qed
qed

lemma str_nat_inj: "str_nat m = str_nat n \<longleftrightarrow> m = n"
  by (metis digits_value_str_nat)

subsection \<open>Masks\<close>

lemma and_mask32_int: "(s::int) AND 4294967295 = s mod 4294967296"
proof -
  have "s AND mask 32 = s mod 2 ^ 32"
    by (simp add: take_bit_eq_mod flip: take_bit_eq_mask)
  then show ?thesis by (simp add: mask_eq_exp_minus_1)
qed

lemma mod32_neg:
  "s < 0 \<Longrightarrow> - 4294967296 \<le> s \<Longrightarrow> (s::int) mod 4294967296 = s + 4294967296"
proof -
  assume a: "s < 0" "- 4294967296 \<le> s"
  have "(s + 4294967296) mod 4294967296 = s mod 4294967296" by simp
  moreover from a have "(s + 4294967296) mod 4294967296 = s + 4294967296"
    by (intro mod_pos_pos_trivial) auto
  ultimately show ?thesis by simp
qed

lemma crc_appid_boot_tuxborn: "crc_appid ''/tmp/boot.sh'' ''Tuxborn'' = - 1953115905"
proof -
  have "crc32 (''/tmp/boot.sh'' @ ''Tuxborn'') = 4100599553"
    using crc32_boot_tuxborn by simp
  then show ?thesis
    unfolding crc_appid_def by (simp add: and_mask32_int)
qed

subsection \<open>Dictionaries and the rebuilt collection\<close>

lemma map_of_dict_set: "map_of (dict_set k v d) k' = (if k' = k then Some v else map_of d k')"
  by (induction d) auto

lemma map_fst_dict_set_present:
  "k \<in> set (map fst d) \<Longrightarrow> map fst (dict_set k v d) = map fst d"
  by (induction d) auto

lemma length_dict_set_present:
  "k \<in> set (map fst d) \<Longrightarrow> length (dict_set k v d) = length d"
  by (induction d) auto

lemma map_snd_reindex: "map snd (reindex xs) = xs"
  by (simp add: reindex_def)

lemma map_fst_reindex: "map fst (reindex xs) = map str_nat [0..<length xs]"
  by (simp add: reindex_def)

lemma length_reindex: "length (reindex xs) = length xs"
  by (simp add: reindex_def)

lemma map_of_update_to_batch:
  "map_of (update_to_batch bp bd a sc) k =
     (if k = ''Exe'' then Some (VStr (quoted bp))
      else if k = ''StartDir'' then Some (VStr (quoted bd))
      else if k = ''appid'' then Some (VInt a)
      else if k = ''LaunchOptions'' then Some (VStr '''')
      else if k = ''tags'' then Some (VDict [])
      else if k = ''CompatTool'' then Some (VStr ''proton_experimental'')
      else map_of sc k)"
  by (simp add: update_to_batch_def dict_update_def map_of_dict_set)

lemma has_name_update_to_batch: "has_name n (update_to_batch bp bd a sc) = has_name n sc"
  by (simp add: has_name_def map_of_update_to_batch)

lemma has_name_new_shortcut: "has_name n (new_shortcut bp bd a m) = (n = m)"
  by (auto simp add: has_name_def new_shortcut_def)

lemma filter_has_name_upsert:
  "filter (has_name n)
     (map (\<lambda>sc. if has_name n sc then update_to_batch bp bd a sc else sc) xs)
     = map (update_to_batch bp bd a) (filter (has_name n) xs)"
  by (induction xs) (auto simp: has_name_update_to_batch)


lemma list_ex_filter: "list_ex P xs = (filter P xs \<noteq> [])"
  by (induction xs) auto

lemma count_upsert_list:
  "length (filter (has_name n) (upsert_list bp bd a n xs))
     = max 1 (length (filter (has_name n) xs))"
proof (cases "list_ex (has_name n) xs")
  case True
  then have "filter (has_name n) xs \<noteq> []" by (simp add: list_ex_filter)
  then have "1 \<le> length (filter (has_name n) xs)" by (cases "filter (has_name n) xs") auto
  with True show ?thesis
    by (simp add: upsert_list_def filter_has_name_upsert)
next
  case False
  then have "filter (has_name n) xs = []" by (simp add: list_ex_filter)
  with False show ?thesis
    by (simp add: upsert_list_def filter_has_name_upsert has_name_new_shortcut)
qed


lemma named_upsert_list:
  "sc \<in> set (upsert_list bp bd a n xs) \<Longrightarrow> has_name n sc \<Longrightarrow>
     map_of sc ''Exe'' = Some (VStr (quoted bp))
     \<and> map_of sc ''StartDir'' = Some (VStr (quoted bd))
     \<and> map_of sc ''appid'' = Some (VInt a)
     \<and> map_of sc ''LaunchOptions'' = Some (VStr '''')
     \<and> map_of sc ''tags'' = Some (VDict [])
     \<and> map_of sc ''CompatTool'' = Some (VStr ''proton_experimental'')"
  by (auto simp add: upsert_list_def Let_def map_of_update_to_batch has_name_update_to_batch
      new_shortcut_def split: if_splits)

lemma list_ex_upsert_list: "list_ex (has_name n) (upsert_list bp bd a n xs)"
proof -
  have "length (filter (has_name n) (upsert_list bp bd a n xs)) \<ge> 1"
    by (simp add: count_upsert_list)
  then show ?thesis by (auto simp add: list_ex_filter)
qed


subsection \<open>Sequential keys\<close>

lemma distinct_map_str_nat: "distinct (map str_nat [0..<n])"
  by (simp add: distinct_map inj_on_def str_nat_inj)

lemma sequential_keys_reindex: "sequential_keys (reindex xs)"
  by (simp add: sequential_keys_def map_fst_reindex length_reindex distinct_map_str_nat)

lemma sequential_keys_lookup:
  "sequential_keys s \<Longrightarrow> i < length s \<Longrightarrow> map_of s (str_nat i) \<noteq> None"
proof -
  assume a: "sequential_keys s" "i < length s"
  then have "str_nat i \<in> set (map fst s)"
    by (simp add: sequential_keys_def)
  then show ?thesis
    by (simp add: map_of_eq_None_iff)
qed

lemma indices_to_remove_readable:
  "indices_to_remove s n is = Inr m \<Longrightarrow> i \<in> set is \<Longrightarrow> map_of s (str_nat i) \<noteq> None"
  by (induction "is" arbitrary: m) (auto split: option.splits sum.splits)

lemma readable_sequential:
  assumes d: "distinct (map fst s)"
    and r: "\<And>i. i < length s \<Longrightarrow> map_of s (str_nat i) \<noteq> None"
  shows "sequential_keys s"
proof -
  let ?A = "set (map str_nat [0..<length s])"
  let ?B = "set (map fst s)"
  have sub: "?A \<subseteq> ?B"
  proof
    fix k assume "k \<in> ?A"
    then obtain i where i: "i < length s" "k = str_nat i" by auto
    with r have "map_of s k \<noteq> None" by simp
    then show "k \<in> ?B" by (simp add: map_of_eq_None_iff)
  qed
  have "card ?A = length s"
    using distinct_card [OF distinct_map_str_nat [of "length s"]] by simp
  moreover have "card ?B = length s"
    using distinct_card [OF d] by simp
  ultimately have "?A = ?B"
    using sub by (intro card_subset_eq) auto
  with d show ?thesis by (simp add: sequential_keys_def)
qed

lemma cleanup_sequential:
  assumes d: "distinct (map fst s)"
    and c: "cleanup_old_batch_shortcuts n (Some s) = (True, Some s')"
  shows "sequential_keys s'"
proof (cases "indices_to_remove s n [0..<length s]")
  case (Inl e)
  with c show ?thesis by (simp add: cleanup_old_batch_shortcuts_def)
next
  case (Inr m)
  show ?thesis
  proof (cases "m = []")
    case True
    with Inr c have "s' = s" by (simp add: cleanup_old_batch_shortcuts_def)
    moreover have "sequential_keys s"
      using d indices_to_remove_readable [OF Inr] by (intro readable_sequential) auto
    ultimately show ?thesis by simp
  next
    case False
    with Inr c show ?thesis
      by (auto simp add: cleanup_old_batch_shortcuts_def sequential_keys_reindex
          split: sum.splits)
  qed
qed

lemma map_of_Some_key: "map_of d k = Some v \<Longrightarrow> k \<in> set (map fst d)"
  by (metis map_of_eq_None_iff option.distinct(1) set_map)

lemma modify_keys:
  "modify_shortcut_to_final_exe n fe fd (Some s) = (True, Some s') \<Longrightarrow> map fst s' = map fst s"
  by (auto simp add: modify_shortcut_to_final_exe_def
      split: sum.splits option.splits
      intro!: map_fst_dict_set_present dest: map_of_Some_key)

lemma modify_sequential:
  "sequential_keys s \<Longrightarrow> modify_shortcut_to_final_exe n fe fd (Some s) = (True, Some s')
     \<Longrightarrow> sequential_keys s'"
  using modify_keys [of n fe fd s s'] length_map [of fst s'] length_map [of fst s]
  by (simp add: sequential_keys_def)

subsection \<open>The conflict loop\<close>


subsection \<open>The hexadecimal digest\<close>

lemma md5_shape: "\<exists>a b c d. md5 s = le_bytes4 a @ le_bytes4 b @ le_bytes4 c @ le_bytes4 d"
  by (cases "md5_blocks (0x67452301, 0xefcdab89, 0x98badcfe, 0x10325476) (md5_pad (map of_char s))")
    (auto simp add: md5_def)

lemma hex_value_hex_digit: "d < 16 \<Longrightarrow> hex_value (hex_digit d) = Some d"
proof -
  assume "d < 16"
  then have "d = 0 \<or> d = 1 \<or> d = 2 \<or> d = 3 \<or> d = 4 \<or> d = 5 \<or> d = 6 \<or> d = 7
      \<or> d = 8 \<or> d = 9 \<or> d = 10 \<or> d = 11 \<or> d = 12 \<or> d = 13 \<or> d = 14 \<or> d = 15"
    by arith
  then show ?thesis unfolding hex_digit_def hex_value_def by auto
qed

lemma int_hex_acc_hex_byte:
  assumes "b < 256"
  shows "int_hex_acc acc (hex_byte b @ rest) = int_hex_acc (256 * acc + b) rest"
proof -
  from assms have h: "b div 16 mod 16 = b div 16" "b div 16 < 16" "b mod 16 < 16" by auto
  have "16 * (16 * acc + b div 16) + b mod 16 = 256 * acc + b" by presburger
  then show ?thesis
    by (simp add: hex_byte_def h hex_value_hex_digit add.commute)
qed

lemma int_hex_acc_hexdigest:
  "\<forall>b \<in> set bs. b < 256 \<Longrightarrow>
     int_hex_acc acc (hexdigest bs) = Some (foldl (\<lambda>a b. 256 * a + b) acc bs)"
proof (induction bs arbitrary: acc)
  case Nil
  then show ?case by (simp add: hexdigest_def)
next
  case (Cons b bs)
  then have "b < 256" by simp
  then have "int_hex_acc acc (hexdigest (b # bs)) = int_hex_acc (256 * acc + b) (hexdigest bs)"
    using int_hex_acc_hex_byte [of b acc "hexdigest bs"] by (simp add: hexdigest_def)
  with Cons show ?case by simp
qed

lemma le_bytes4_bytes: "\<forall>b \<in> set (le_bytes4 x). b < 256"
  by (simp add: le_bytes4_def)

lemma foldl_be_split:
  "foldl (\<lambda>a b. 256 * a + b) (acc::nat) bs
     = acc * 256 ^ length bs + foldl (\<lambda>a b. 256 * a + b) 0 bs"
proof (induction bs arbitrary: acc)
  case Nil
  then show ?case by simp
next
  case (Cons b bs)
  have "foldl (\<lambda>a b. 256 * a + b) acc (b # bs) = foldl (\<lambda>a b. 256 * a + b) (256 * acc + b) bs"
    by simp
  also have "\<dots> = (256 * acc + b) * 256 ^ length bs + foldl (\<lambda>a b. 256 * a + b) 0 bs"
    by (rule Cons.IH)
  finally have l: "foldl (\<lambda>a b. 256 * a + b) acc (b # bs)
      = (256 * acc + b) * 256 ^ length bs + foldl (\<lambda>a b. 256 * a + b) 0 bs" .
  have "foldl (\<lambda>a b. 256 * a + b) 0 (b # bs) = foldl (\<lambda>a b. 256 * a + b) b bs"
    by simp
  also have "\<dots> = b * 256 ^ length bs + foldl (\<lambda>a b. 256 * a + b) 0 bs"
    by (rule Cons.IH)
  finally have r: "foldl (\<lambda>a b. 256 * a + b) 0 (b # bs)
      = b * 256 ^ length bs + foldl (\<lambda>a b. 256 * a + b) 0 bs" .
  show ?case unfolding l r by (simp add: algebra_simps)
qed

lemma be_value_bound:
  "\<forall>b \<in> set bs. b < 256 \<Longrightarrow> be_value bs < 256 ^ length bs"
proof (induction bs rule: rev_induct)
  case Nil
  then show ?case by (simp add: be_value_def)
next
  case (snoc b bs)
  then have "b < 256" and "be_value bs < 256 ^ length bs" by simp_all
  then have "256 * be_value bs + b < 256 * 256 ^ length bs" by simp
  then show ?case by (simp add: be_value_def)
qed

lemma be_value_div:
  assumes "\<forall>b \<in> set ys. b < 256"
  shows "be_value (xs @ ys) div 256 ^ length ys = be_value xs"
proof -
  have "be_value (xs @ ys) = be_value xs * 256 ^ length ys + be_value ys"
    unfolding be_value_def by (simp add: foldl_be_split [of "foldl _ _ xs" ys])
  moreover have "be_value ys < 256 ^ length ys"
    using assms by (rule be_value_bound)
  ultimately show ?thesis by simp
qed

lemma seed_is_leading_bytes:
  "int_hex (stl_seed_hex name exe) = Some (md5_int (name @ exe) div 2 ^ 96)"
proof -
  obtain a b c d where m: "md5 (name @ exe) = le_bytes4 a @ le_bytes4 b @ le_bytes4 c @ le_bytes4 d"
    using md5_shape by blast
  let ?rest = "le_bytes4 b @ le_bytes4 c @ le_bytes4 d"
  have t: "take 8 (hexdigest (le_bytes4 a @ ?rest)) = hexdigest (le_bytes4 a)"
    by (simp add: hexdigest_def hex_byte_def le_bytes4_def)
  have ne: "hexdigest (le_bytes4 a) \<noteq> []"
    by (simp add: hexdigest_def hex_byte_def le_bytes4_def)
  have v: "int_hex_acc 0 (hexdigest (le_bytes4 a)) = Some (be_value (le_bytes4 a))"
    unfolding be_value_def using le_bytes4_bytes by (rule int_hex_acc_hexdigest)
  have r: "\<forall>x \<in> set ?rest. x < 256"
    using le_bytes4_bytes by auto
  have lr: "length ?rest = 12" by (simp add: le_bytes4_def)
  have "be_value (le_bytes4 a @ ?rest) div 256 ^ length ?rest = be_value (le_bytes4 a)"
    using r by (rule be_value_div)
  then have dv: "be_value (le_bytes4 a @ ?rest) div 2 ^ 96 = be_value (le_bytes4 a)"
    unfolding lr by simp
  have "int_hex (stl_seed_hex name exe) = Some (int (be_value (le_bytes4 a)))"
    by (simp add: stl_seed_hex_def m t int_hex_def ne v)
  also have "int (be_value (le_bytes4 a)) = md5_int (name @ exe) div 2 ^ 96"
    unfolding md5_int_def m dv [symmetric] by (simp add: zdiv_int)
  finally show ?thesis .
qed

lemma md5_int_tux: "md5_int ''Tuxborn/tmp/boot.sh'' = 0xc8fb89aa56fdde5f00210835ed0f8de0"
proof -
  have "md5 (''Tuxborn/tmp/boot.sh'') = [200, 251, 137, 170, 86, 253, 222, 95, 0, 33, 8, 53, 237, 15, 141, 224]"
    by (rule md5_tuxborn_boot)
  then show ?thesis by (simp add: md5_int_def be_value_def)
qed

subsection \<open>Evaluation of the patch on the example file\<close>

lemmas eval_strings = starts_with_def ends_with_def quoted_def dquote_def py_strip_def
  lstrip.simps rstrip.simps py_whitespace_def str_nat.simps digit_char_def str_int_def
  tabs_def nl_def replicate_numeral_unfold upt_rec

lemma config_section_start:
  "first_index (\<lambda>line. is_substr (quoted ''CompatToolMapping'') (py_strip line))
     config_lines [0..<length config_lines] = Some 0"
proof -
  have "py_strip (tabs 4 @ quoted ''CompatToolMapping'' @ nl) = quoted ''CompatToolMapping''"
    by (simp add: eval_strings)
  moreover have "is_substr (quoted ''CompatToolMapping'') (quoted ''CompatToolMapping'')"
    by (simp add: eval_strings)
  ultimately show ?thesis
    by (simp add: config_lines_def upt_rec)
qed

lemma config_section_end: "brace_scan config_lines 0 [Suc 0..<length config_lines] = Some 8"
  by (simp add: config_lines_def eval_strings)

lemma config_entry_250:
  "first_index (is_substr (quoted (str_int 250))) config_lines [0..<9] = Some 6"
  by (simp add: config_lines_def eval_strings)

lemma config_entry_250_end: "brace_scan config_lines 0 [7, 8] = None"
  by (simp add: config_lines_def eval_strings)

lemma config_entry_456:
  "first_index (is_substr (quoted (str_int 456))) config_lines [0..<9] = None"
  by (simp add: config_lines_def eval_strings)

subsection \<open>Retargeting\<close>










lemmas eval_store = modify_shortcut_to_final_exe_def is_batch_shortcut_def get_or_def
  starts_with_def ends_with_def quoted_def dquote_def retarget_shortcut_def py_strip_def
  lstrip.simps rstrip.simps py_whitespace_def str_nat.simps digit_char_def entry_at_def
  has_name_def

subsection \<open>The shape of the workflow result\<close>

lemma workflow_result_shape:
  "fst (run_complete_workflow e bp bd name dir exe file) = [RBool False, RNone, RNone, RNone]
   \<or> (\<exists>p a. fst (run_complete_workflow e bp bd name dir exe file)
        = [RBool True, RPath p, RInt a])"
  by (auto simp add: run_complete_workflow_def workflow_failure_def Let_def
      split: prod.splits option.splits launch_result.splits)

lemma workflow_no_prefix:
  "env_compatdata_exists e = (\<lambda>p. False) \<Longrightarrow>
     fst (run_complete_workflow e bp bd name dir exe file) = [RBool False, RNone, RNone, RNone]"
  by (auto simp add: run_complete_workflow_def workflow_failure_def Let_def
      split: prod.splits option.splits launch_result.splits)

subsection \<open>The operations on the example store\<close>


lemma modify_example_store:
  "modify_shortcut_to_final_exe ''Foo'' ''/real/ModOrganizer.exe'' ''/real/dir''
          (Some example_store) =
     (True, Some
       [(''0'', [(''AppName'', VStr ''Foo''),
                (''Exe'', VStr (quoted ''/real/ModOrganizer.exe'')),
                (''StartDir'', VStr (quoted ''/real/dir'')),
                (''appid'', VInt (- 42)),
                (''LaunchOptions'', VStr ''%command%''),
                (''CompatTool'', VStr ''proton_experimental'')]),
        (''1'', [(''AppName'', VStr ''Bar''),
                (''Exe'', VStr (quoted ''/b/Bar.exe'')),
                (''StartDir'', VStr (quoted ''/b'')),
                (''appid'', VInt (- 7)),
                (''CompatTool'', VStr ''proton_9'')])])"
  by (simp add: eval_store example_store_def)

lemma replace_example_store:
  "replace_shortcut_with_final_exe ''Foo'' ''/real/ModOrganizer.exe'' ''/real/dir''
      (Some example_store)
    = (True, Some (the (snd (replace_shortcut_with_final_exe ''Foo'' ''/real/ModOrganizer.exe''
        ''/real/dir'' (Some example_store)))))"
  by (simp add: replace_shortcut_with_final_exe_def example_store_def has_name_def)

lemma cleanup_example_store:
  "cleanup_old_batch_shortcuts ''Foo'' (Some example_store)
       = (True, Some [(''0'', [(''AppName'', VStr ''Bar''),
                              (''Exe'', VStr (quoted ''/b/Bar.exe'')),
                              (''StartDir'', VStr (quoted ''/b'')),
                              (''appid'', VInt (- 7)),
                              (''CompatTool'', VStr ''proton_9'')])])"
  by (simp add: cleanup_old_batch_shortcuts_def example_store_def is_old_batch_shortcut_def
      get_or_def starts_with_def ends_with_def str_nat.simps digit_char_def reindex_def)

lemma sequential_example_store: "sequential_keys example_store"
  by (simp add: sequential_keys_def example_store_def str_nat.simps digit_char_def upt_rec)

section \<open>The claims\<close>

subsection \<open>C1: the checksum-based identifier\<close>

text \<open>
  C1. After \<open>create_shortcut_directly_with_proton\<close> the store has an entry with the
  shortcut name, and every entry with that name stores the signed identifier
  \<open>-(crc32(utf8(exe_path + name)) & 0x7FFFFFFF)\<close>; Step 2 of \<open>run_complete_workflow\<close>
  computes the same number (\<open>crc_appid\<close>).
\<close>

theorem created_entry_has_checksum_identifier:
  "\<exists>s'. create_shortcut_directly_with_proton bp bd ok name exe dir (Some shortcuts) = (ok, Some s')
     \<and> list_ex (has_name name) (map snd s')
     \<and> list_all (\<lambda>sc. has_name name sc \<longrightarrow>
           map_of sc ''appid'' = Some (VInt (- (crc32 (exe @ name) AND 0x7FFFFFFF))))
         (map snd s')
     \<and> crc_appid exe name = - (crc32 (exe @ name) AND 0x7FFFFFFF)"
proof -
  let ?l = "upsert_list bp bd (crc_appid exe name) name (map snd shortcuts)"
  have "create_shortcut_directly_with_proton bp bd ok name exe dir (Some shortcuts)
      = (ok, Some (reindex ?l))"
    by (simp add: create_shortcut_directly_with_proton_def)
  moreover have "list_ex (has_name name) ?l"
    by (rule list_ex_upsert_list)
  moreover have "list_all (\<lambda>sc. has_name name sc \<longrightarrow>
      map_of sc ''appid'' = Some (VInt (crc_appid exe name))) ?l"
    unfolding list_all_iff
    using named_upsert_list [of _ bp bd "crc_appid exe name" name "map snd shortcuts"]
    by blast
  moreover have "crc_appid exe name = - (crc32 (exe @ name) AND 0x7FFFFFFF)"
    by (simp add: crc_appid_def)
  ultimately show ?thesis
    by (intro exI [of _ "reindex ?l"]) (simp add: map_snd_reindex)
qed

text \<open>
  The scenario of the specification: on the empty store, creating "Tuxborn" with executable
  "/tmp/boot.sh" stores \<open>- 1953115905\<close>, the checksum of "/tmp/boot.shTuxborn".
\<close>

theorem created_entry_has_checksum_identifier_witness:
  "create_shortcut_directly_with_proton ''/home/u/Jackify/temp_prefix_creation.bat''
       ''/home/u/Jackify'' True ''Tuxborn'' ''/tmp/boot.sh'' ''/tmp'' (Some [])
     = (True, Some [(''0'', new_shortcut ''/home/u/Jackify/temp_prefix_creation.bat''
                              ''/home/u/Jackify'' (- 1953115905) ''Tuxborn'')])
   \<and> has_name ''Tuxborn'' (new_shortcut ''/home/u/Jackify/temp_prefix_creation.bat''
                              ''/home/u/Jackify'' (- 1953115905) ''Tuxborn'')
   \<and> map_of (new_shortcut ''/home/u/Jackify/temp_prefix_creation.bat''
                 ''/home/u/Jackify'' (- 1953115905) ''Tuxborn'') ''appid''
       = Some (VInt (- (crc32 ''/tmp/boot.shTuxborn'' AND 0x7FFFFFFF)))"
  using created_entry_has_checksum_identifier [of "''/home/u/Jackify/temp_prefix_creation.bat''"
      "''/home/u/Jackify''" True "''Tuxborn''" "''/tmp/boot.sh''" "''/tmp''" "[]"]
    crc_appid_boot_tuxborn
  by (simp add: create_shortcut_directly_with_proton_def upsert_list_def reindex_def
      str_nat.simps digit_char_def has_name_def new_shortcut_def crc_appid_def)

subsection \<open>C2: the hash-based identifier\<close>

text \<open>
  C2, as stated: the identifier comes from the low 32 bits of the 128-bit MD5 hash of
  name followed by path. \<open>predict_appid_using_stl_algorithm\<close> reads the first 8
  characters of the hex digest. For "Tuxborn" and "/tmp/boot.sh" the digest is
  c8fb89aa56fdde5f00210835ed0f8de0: the code takes c8fb89aa and gives \<open>- 371927978\<close>,
  the low 32 bits ed0f8de0 would give \<open>- 977219552\<close>.
\<close>

theorem stl_identifier_counterexample:
  "stl_signed_appid ''Tuxborn'' ''/tmp/boot.sh'' = Some (- 371927978)
   \<and> spec_low32_signed_appid ''Tuxborn'' ''/tmp/boot.sh'' = - 977219552
   \<and> stl_signed_appid ''Tuxborn'' ''/tmp/boot.sh''
       \<noteq> Some (spec_low32_signed_appid ''Tuxborn'' ''/tmp/boot.sh'')"
proof -
  have m: "md5_int (''Tuxborn'' @ ''/tmp/boot.sh'') = 0xc8fb89aa56fdde5f00210835ed0f8de0"
    using md5_int_tux by simp
  have a: "stl_signed_appid ''Tuxborn'' ''/tmp/boot.sh'' = Some (- 371927978)"
    by (simp add: stl_signed_appid_def seed_is_leading_bytes md5_int_tux)
  have b: "spec_low32_signed_appid ''Tuxborn'' ''/tmp/boot.sh'' = - 977219552"
    unfolding spec_low32_signed_appid_def m by (simp add: and_mask32_int)
  show ?thesis using a b by simp
qed

text \<open>
  C2, amended: the signed identifier is the number of the first 8 hexadecimal digits of the
  MD5 hex digest of name followed by path, that is the most significant 32 bits of the
  128-bit hash, reduced modulo one billion and negated; the function returns the unsigned
  form \<open>signed & 0xFFFFFFFF\<close>, for every name and path.
\<close>

theorem stl_identifier_from_leading_hex_digits:
  "stl_signed_appid name exe = Some (- ((md5_int (name @ exe) div 2 ^ 96) mod 1000000000))
   \<and> predict_appid_using_stl_algorithm name exe
       = Some ((- ((md5_int (name @ exe) div 2 ^ 96) mod 1000000000)) AND 0xFFFFFFFF)
   \<and> predict_appid_using_stl_algorithm name exe
       = map_option generate_steam_short_id (stl_signed_appid name exe)"
  by (simp add: stl_signed_appid_def predict_appid_using_stl_algorithm_def seed_is_leading_bytes
      generate_steam_short_id_def)

theorem stl_identifier_from_leading_hex_digits_witness:
  "stl_signed_appid ''Tuxborn'' ''/tmp/boot.sh'' = Some (- 371927978)
   \<and> predict_appid_using_stl_algorithm ''Tuxborn'' ''/tmp/boot.sh'' = Some 3923039318"
proof -
  have m: "md5_int (''Tuxborn'' @ ''/tmp/boot.sh'') = 0xc8fb89aa56fdde5f00210835ed0f8de0"
    using md5_int_tux by simp
  show ?thesis
    using stl_identifier_from_leading_hex_digits [of "''Tuxborn''" "''/tmp/boot.sh''"]
    unfolding m by (simp add: and_mask32_int)
qed

subsection \<open>C3: the launch handle\<close>

text \<open>
  C3. The handle passed to \<open>steam://rungameid/\<close> is to be
  \<open>(unsigned_identifier << 32) | 0x02000000\<close> with the unsigned 32-bit form of the signed
  identifier, on every workflow path. \<open>launch_shortcut_to_trigger_prefix\<close> computes that;
  \<open>run_complete_workflow\<close> shifts the signed identifier. For the entry "Tuxborn" with
  executable "/tmp/boot.sh" the workflow launches a negative handle, not the handle of the
  claim.
\<close>

theorem workflow_rungameid_shifts_signed_identifier:
  "workflow_rungameid (crc_appid ''/tmp/boot.sh'' ''Tuxborn'') = - 8388568937238888448
   \<and> push_bit 32 (generate_steam_short_id (crc_appid ''/tmp/boot.sh'' ''Tuxborn'')) OR 0x02000000
       = (10058175136470663168 :: int)
   \<and> launch_rungameid (crc_appid ''/tmp/boot.sh'' ''Tuxborn'') = 10058175136470663168"
  by (simp add: workflow_rungameid_def launch_rungameid_def crc_appid_boot_tuxborn
      generate_steam_short_id_def push_bit_eq_mult and_mask32_int)

subsection \<open>C4: the result of the workflow\<close>

text \<open>
  C4. The workflow is to return a tuple of exactly three components, and
  \<open>(false, none, none)\<close> when the prefix directory never appears, without changing the
  identifier of the stored entry. When the directory never appears,
  \<open>run_complete_workflow\<close> returns the four components \<open>False, None, None, None\<close>, as
  on every failure exit; by then Step 1 has written the store, and an entry "Tuxborn"
  stored with the identifier \<open>- 42\<close> holds the checksum identifier.
\<close>

theorem workflow_timeout_returns_four_components:
  "run_complete_workflow no_prefix_env ''/home/u/Jackify/temp_prefix_creation.bat''
       ''/home/u/Jackify'' ''Tuxborn'' ''/tmp'' ''/tmp/boot.sh'' (Some []) =
     ([RBool False, RNone, RNone, RNone],
      Some [(''0'', new_shortcut ''/home/u/Jackify/temp_prefix_creation.bat''
                                ''/home/u/Jackify'' (- 1953115905) ''Tuxborn'')])
   \<and> length (fst (run_complete_workflow no_prefix_env ''/home/u/Jackify/temp_prefix_creation.bat''
       ''/home/u/Jackify'' ''Tuxborn'' ''/tmp'' ''/tmp/boot.sh'' (Some []))) = 4
   \<and> map_of (entry_at tuxborn_store 0) ''appid'' = Some (VInt (- 42))
   \<and> map_of (entry_at (the (snd (run_complete_workflow no_prefix_env
         ''/home/u/Jackify/temp_prefix_creation.bat'' ''/home/u/Jackify'' ''Tuxborn'' ''/tmp''
         ''/tmp/boot.sh'' (Some tuxborn_store)))) 0) ''appid'' = Some (VInt (- 1953115905))"
  by (simp add: run_complete_workflow_def no_prefix_env_def workflow_failure_def
      create_shortcut_directly_with_proton_def upsert_list_def reindex_def crc_appid_boot_tuxborn
      str_nat.simps digit_char_def tuxborn_store_def has_name_def update_to_batch_def
      dict_update_def entry_at_def get_or_def)

subsection \<open>C5: retargeting to the final executable\<close>




subsection \<open>C6: patching the compatibility mapping\<close>

text \<open>
  C6. Patching in a new identifier is to leave the block of an unrelated identifier as it
  is and to put the block of the new identifier into the section. The file holds the block
  of 123 with the line \<open>"priority" "250"\<close>. Patching in 456 inserts its block before the
  closing brace of the section. Patching in 250 finds \<open>"250"\<close> in the priority line of
  123, takes that line for the start of an existing entry, finds no closing brace for it and
  fails on \<open>appid_entry_end + 1\<close>: nothing is written and no block for 250 appears.
\<close>

theorem patch_takes_value_line_for_entry:
  "patch_compat_tool_mapping 250 ''proton_experimental'' config_lines = None
   \<and> patch_compat_tool_mapping 456 ''proton_experimental'' config_lines
       = Some (take 8 config_lines @ [concat (new_entry_lines 456 ''proton_experimental'')]
               @ drop 8 config_lines)"
  by (simp add: patch_compat_tool_mapping_def config_section_start config_section_end
      config_entry_250 config_entry_250_end config_entry_456
      del: brace_scan.simps first_index.simps)

subsection \<open>C7: create or update, and the number of entries\<close>




subsection \<open>C8: conflict detection\<close>



subsection \<open>C9: the key of the prefix directory\<close>

text \<open>
  C9, as stated: the directory name is the decimal string of the absolute value of the
  signed identifier, and this key coincides with the unsigned 32-bit form
  \<open>signed & 0xFFFFFFFF\<close>. For the identifier of "Tuxborn" with "/tmp/boot.sh" the two
  differ: the directory is "1953115905", the unsigned form is 2341851391.
\<close>

theorem prefix_key_counterexample:
  "prefix_dir_name (crc_appid ''/tmp/boot.sh'' ''Tuxborn'') = ''1953115905''
   \<and> str_int (generate_steam_short_id (crc_appid ''/tmp/boot.sh'' ''Tuxborn'')) = ''2341851391''
   \<and> \<not> (prefix_dir_name (crc_appid ''/tmp/boot.sh'' ''Tuxborn'')
          = str_nat (nat \<bar>crc_appid ''/tmp/boot.sh'' ''Tuxborn''\<bar>)
        \<and> prefix_dir_name (crc_appid ''/tmp/boot.sh'' ''Tuxborn'')
          = str_int (generate_steam_short_id (crc_appid ''/tmp/boot.sh'' ''Tuxborn'')))"
  by (simp add: crc_appid_boot_tuxborn prefix_dir_name_def generate_steam_short_id_def
      and_mask32_int str_int_def str_nat.simps digit_char_def)

text \<open>
  C9, amended: the directory name is the decimal string of the absolute value of the signed
  identifier; for a signed 32-bit identifier this key is the decimal string of the unsigned
  32-bit form exactly when the identifier is not negative or is \<open>- 2 ^ 31\<close>.
\<close>

theorem prefix_key_is_absolute_value:
  "prefix_dir_name s = str_nat (nat \<bar>s\<bar>) \<and>
   (- 2147483648 \<le> s \<and> s < 2147483648 \<longrightarrow>
      (prefix_dir_name s = str_nat (nat (generate_steam_short_id s)))
        = (0 \<le> s \<or> s = - 2147483648))"
proof -
  have "nat \<bar>s\<bar> = nat (s mod 4294967296) \<longleftrightarrow> 0 \<le> s \<or> s = - 2147483648"
    if "- 2147483648 \<le> s" "s < 2147483648"
  proof (cases "s < 0")
    case True
    with that have "s mod 4294967296 = s + 4294967296" by (intro mod32_neg) auto
    with True that show ?thesis by auto
  next
    case False
    with that have "s mod 4294967296 = s" by (intro mod_pos_pos_trivial) auto
    with False show ?thesis by auto
  qed
  then show ?thesis
    by (auto simp add: prefix_dir_name_def generate_steam_short_id_def and_mask32_int str_nat_inj)
qed

theorem prefix_key_is_absolute_value_witness:
  "(- 2147483648 \<le> (- 5 :: int) \<and> (- 5 :: int) < 2147483648)
   \<and> prefix_dir_name (- 5) = str_nat 5
   \<and> prefix_dir_name (- 5) \<noteq> str_nat (nat (generate_steam_short_id (- 5)))"
  using prefix_key_is_absolute_value [of "- 5"] by auto

subsection \<open>C10: the keys of the collection\<close>

text \<open>
  C10. After create/update, after the retargeting to the final executable and after the
  cleanup of old bootstrap entries, the keys of the persisted collection are exactly the
  decimal strings "0" to "n-1" for its n entries. \<open>create_shortcut_directly_with_proton\<close>
  and \<open>replace_shortcut_with_final_exe\<close> rebuild the collection by enumeration;
  \<open>cleanup_old_batch_shortcuts\<close> rebuilds it when it removes an entry and otherwise has
  read every index of the collection it leaves in place;
  \<open>modify_shortcut_to_final_exe\<close> keeps the keys it found. A collection with such keys
  has an entry under every index a reader asks for.
\<close>

theorem store_keys_sequential_after_mutation:
  "distinct (map fst shortcuts) \<Longrightarrow>
     (create_shortcut_directly_with_proton bp bd ok name exe dir (Some shortcuts) = (r1, Some s1)
        \<longrightarrow> sequential_keys s1)
   \<and> (replace_shortcut_with_final_exe name exe dir (Some shortcuts) = (True, Some s2)
        \<longrightarrow> sequential_keys s2)
   \<and> (cleanup_old_batch_shortcuts name (Some shortcuts) = (True, Some s3)
        \<longrightarrow> sequential_keys s3)
   \<and> (sequential_keys shortcuts
        \<longrightarrow> modify_shortcut_to_final_exe name exe dir (Some shortcuts) = (True, Some s4)
        \<longrightarrow> sequential_keys s4)
   \<and> (sequential_keys shortcuts \<longrightarrow> i < length shortcuts
        \<longrightarrow> map_of shortcuts (str_nat i) \<noteq> None)"
  using cleanup_sequential [of shortcuts name s3] modify_sequential [of shortcuts name exe dir s4]
    sequential_keys_lookup [of shortcuts i]
  by (auto simp add: create_shortcut_directly_with_proton_def replace_shortcut_with_final_exe_def
      sequential_keys_reindex split: if_splits)

theorem store_keys_sequential_after_mutation_witness:
  "distinct (map fst example_store)
   \<and> sequential_keys example_store
   \<and> sequential_keys (reindex (upsert_list ''/home/u/Jackify/temp_prefix_creation.bat''
         ''/home/u/Jackify'' (crc_appid ''/real/ModOrganizer.exe'' ''Foo'') ''Foo''
         (map snd example_store)))
   \<and> sequential_keys (the (snd (replace_shortcut_with_final_exe ''Foo''
         ''/real/ModOrganizer.exe'' ''/real/dir'' (Some example_store))))
   \<and> sequential_keys (the (snd (cleanup_old_batch_shortcuts ''Foo'' (Some example_store))))
   \<and> sequential_keys (the (snd (modify_shortcut_to_final_exe ''Foo''
         ''/real/ModOrganizer.exe'' ''/real/dir'' (Some example_store))))
   \<and> map_of example_store (str_nat 1) \<noteq> None"
proof -
  have d: "distinct (map fst example_store)"
    by (simp add: example_store_def)
  have u: "create_shortcut_directly_with_proton ''/home/u/Jackify/temp_prefix_creation.bat''
         ''/home/u/Jackify'' True ''Foo'' ''/real/ModOrganizer.exe'' ''/real/dir''
         (Some example_store)
      = (True, Some (reindex (upsert_list ''/home/u/Jackify/temp_prefix_creation.bat''
         ''/home/u/Jackify'' (crc_appid ''/real/ModOrganizer.exe'' ''Foo'') ''Foo''
         (map snd example_store))))"
    by (simp add: create_shortcut_directly_with_proton_def)
  have c: "cleanup_old_batch_shortcuts ''Foo'' (Some example_store)
      = (True, Some (the (snd (cleanup_old_batch_shortcuts ''Foo'' (Some example_store)))))"
    by (simp add: cleanup_example_store)
  have m: "modify_shortcut_to_final_exe ''Foo'' ''/real/ModOrganizer.exe'' ''/real/dir''
        (Some example_store)
      = (True, Some (the (snd (modify_shortcut_to_final_exe ''Foo'' ''/real/ModOrganizer.exe''
          ''/real/dir'' (Some example_store)))))"
    by (simp add: modify_example_store)
  have l: "1 < length example_store"
    by (simp add: example_store_def)
  from store_keys_sequential_after_mutation [OF d, of
      "''/home/u/Jackify/temp_prefix_creation.bat''" "''/home/u/Jackify''" True "''Foo''"
      "''/real/ModOrganizer.exe''" "''/real/dir''" True _ _ _ _ 1]
    u replace_example_store c m sequential_example_store l d
  show ?thesis by blast
qed

end
